theory Spec2Isabelle
  imports Complex_Main "HOL-Library.Product_Lexorder"
begin

chapter \<open>Road hazard mapping: speed recommendation engine and GPS simulators\<close>

text \<open>
  A shallow embedding of \<^verbatim>\<open>backend/routes/speed_routes.py\<close> and
  \<^verbatim>\<open>backend/utils/gps_simulator.py\<close>.

  Python's \<^verbatim>\<open>float\<close> is IEEE binary64. A finite float is modelled by the real number
  it denotes, and every arithmetic operation on floats is the exact operation followed by
  rounding to the nearest binary64 value, ties to even (\<open>rd\<close>). Infinities and NaN are
  not values of the model; the only place of the modelled code where a finite input leaves
  the finite range is the conversion of a large \<^verbatim>\<open>int\<close> to \<^verbatim>\<open>float\<close>, which
  raises \<^verbatim>\<open>OverflowError\<close> and is modelled as such. The functions of the
  \<^verbatim>\<open>math\<close> module (\<^verbatim>\<open>sin\<close>, \<^verbatim>\<open>cos\<close>, \<^verbatim>\<open>atan2\<close>, \<^verbatim>\<open>sqrt\<close>,
  \<^verbatim>\<open>radians\<close>) are taken as their mathematical counterparts; the haversine distance is
  computed with them exactly. Python's \<^verbatim>\<open>int\<close> is \<open>int\<close>.
\<close>

section \<open>Binary64 rounding\<close>

text \<open>\<open>expo x\<close> is the binary exponent of a positive \<open>x\<close>: \<open>2 powi expo x \<le> x < 2 powi (expo x + 1)\<close>.\<close>

function expo_up :: "real \<Rightarrow> int \<Rightarrow> int" where
  "expo_up x e = (if x < 2 then e else expo_up (x / 2) (e + 1))"
  by pat_completeness auto
termination
proof (relation "measure (\<lambda>(x, e). nat \<lfloor>x\<rfloor>)")
  show "wf (measure (\<lambda>(x::real, e::int). nat \<lfloor>x\<rfloor>))" by simp
next
  fix x :: real and e :: int
  assume "\<not> x < 2"
  then have "\<lfloor>x / 2\<rfloor> < \<lfloor>x\<rfloor>" "0 < \<lfloor>x\<rfloor>" by linarith+
  then show "((x / 2, e + 1), (x, e)) \<in> measure (\<lambda>(x, e). nat \<lfloor>x\<rfloor>)" by simp
qed

function expo_down :: "real \<Rightarrow> int \<Rightarrow> int" where
  "expo_down x e = (if x \<le> 0 \<or> 1 \<le> x then e else expo_down (2 * x) (e - 1))"
  by pat_completeness auto
termination
proof (relation "measure (\<lambda>(x, e). nat \<lceil>1 / x\<rceil>)")
  show "wf (measure (\<lambda>(x::real, e::int). nat \<lceil>1 / x\<rceil>))" by simp
next
  fix x :: real and e :: int
  assume a: "\<not> (x \<le> 0 \<or> 1 \<le> x)"
  then have x: "0 < x" "x < 1" by auto
  then have "1 < 1 / x" by simp
  then have c: "2 \<le> \<lceil>1 / x\<rceil>" by linarith
  have "1 / (2 * x) = (1 / x) / 2" by simp
  also have "\<dots> \<le> of_int \<lceil>1 / x\<rceil> / 2" by (simp add: divide_right_mono)
  finally have "\<lceil>1 / (2 * x)\<rceil> \<le> \<lceil>of_int \<lceil>1 / x\<rceil> / (2::real)\<rceil>" by (rule ceiling_mono)
  also have "\<dots> < \<lceil>1 / x\<rceil>" using c by linarith
  finally show "((2 * x, e - 1), (x, e)) \<in> measure (\<lambda>(x, e). nat \<lceil>1 / x\<rceil>)"
    using c x by simp
qed

declare expo_up.simps [simp del] expo_down.simps [simp del]

definition expo :: "real \<Rightarrow> int" where
  "expo x = (if 1 \<le> x then expo_up x 0 else expo_down x 0)"

text \<open>Rounding to the nearest integer, ties to the even one.\<close>

definition rne :: "real \<Rightarrow> int" where
  "rne q = (let f = \<lfloor>q\<rfloor>; d = q - of_int f in
     if d < 1 / 2 then f else if 1 / 2 < d then f + 1 else if even f then f else f + 1)"

text \<open>Rounding to 53 significant bits: the value of a float operation whose exact result is \<open>x\<close>.\<close>

definition rd :: "real \<Rightarrow> real" where
  "rd x = (if x = 0 then 0 else
     let u = 2 powi (expo \<bar>x\<bar> - 52) in of_int (rne (x / u)) * u)"

definition fadd :: "real \<Rightarrow> real \<Rightarrow> real" where
  "fadd a b = rd (a + b)"

definition fsub :: "real \<Rightarrow> real \<Rightarrow> real" where
  "fsub a b = rd (a - b)"

definition fmul :: "real \<Rightarrow> real \<Rightarrow> real" where
  "fmul a b = rd (a * b)"

datatype py_error = OverflowError | ZeroDivisionError | IndexError | TypeError

text \<open>Float division: \<^verbatim>\<open>a / b\<close> raises on a zero divisor.\<close>

definition fdiv :: "real \<Rightarrow> real \<Rightarrow> py_error + real" where
  "fdiv a b = (if b = 0 then Inl ZeroDivisionError else Inr (rd (a / b)))"

text \<open>
  The implicit conversion of an \<^verbatim>\<open>int\<close> operand in \<^verbatim>\<open>int * float\<close>: correctly rounded,
  \<^verbatim>\<open>OverflowError\<close> when the rounded value is beyond the largest finite float.
\<close>

definition int_to_float :: "int \<Rightarrow> py_error + real" where
  "int_to_float n = (if 2 ^ 1024 \<le> \<bar>rd (of_int n)\<bar> then Inl OverflowError else Inr (rd (of_int n)))"

text \<open>\<^verbatim>\<open>int(x)\<close> on a float truncates towards zero.\<close>

definition py_int :: "real \<Rightarrow> int" where
  "py_int x = (if 0 \<le> x then \<lfloor>x\<rfloor> else \<lceil>x\<rceil>)"

text \<open>\<^verbatim>\<open>round(x, n)\<close>: the float nearest to \<open>x\<close> rounded to \<open>n\<close> decimals, ties to even.\<close>

definition py_round :: "real \<Rightarrow> nat \<Rightarrow> real" where
  "py_round x n = rd (of_int (rne (x * 10 ^ n)) / 10 ^ n)"

section \<open>Hazards (models/hazard.py)\<close>

datatype HazardType = POTHOLE | CRACK | DEBRIS | CONSTRUCTION | FLOODING

datatype SeverityLevel = LOW | MEDIUM | HIGH

fun HazardType_value :: "HazardType \<Rightarrow> string" where
  "HazardType_value POTHOLE = ''pothole''"
| "HazardType_value CRACK = ''crack''"
| "HazardType_value DEBRIS = ''debris''"
| "HazardType_value CONSTRUCTION = ''construction''"
| "HazardType_value FLOODING = ''flooding''"

fun SeverityLevel_value :: "SeverityLevel \<Rightarrow> string" where
  "SeverityLevel_value LOW = ''low''"
| "SeverityLevel_value MEDIUM = ''medium''"
| "SeverityLevel_value HIGH = ''high''"

text \<open>The columns of a stored hazard that the speed routes read.\<close>

record Hazard =
  hazard_id :: int
  latitude :: real
  longitude :: real
  hazard_type :: HazardType
  severity_level :: SeverityLevel
  road_name :: string

section \<open>SpeedRecommendationEngine (routes/speed_routes.py)\<close>

text \<open>The literals \<^verbatim>\<open>0.5\<close>, \<^verbatim>\<open>0.75\<close>, \<^verbatim>\<open>0.90\<close> are the floats nearest to the decimals.\<close>

fun SPEED_FACTORS :: "SeverityLevel \<Rightarrow> real" where
  "SPEED_FACTORS HIGH = rd (5 / 10)"
| "SPEED_FACTORS MEDIUM = rd (75 / 100)"
| "SPEED_FACTORS LOW = rd (90 / 100)"

text \<open>The items of the dictionary \<^verbatim>\<open>DISTANCE_FACTORS\<close>, in the order they are written.\<close>

definition DISTANCE_FACTORS :: "(real \<times> real) list" where
  "DISTANCE_FACTORS =
     [(rd (1 / 10), rd 1), (rd (2 / 10), rd (8 / 10)), (rd (5 / 10), rd (5 / 10)),
      (rd 1, rd (2 / 10)), (rd 2, rd (1 / 10))]"

definition radians :: "real \<Rightarrow> real" where
  "radians x = x * pi / 180"

definition atan2 :: "real \<Rightarrow> real \<Rightarrow> real" where
  "atan2 y x =
     (if 0 < x then arctan (y / x)
      else if x < 0 then (if 0 \<le> y then arctan (y / x) + pi else arctan (y / x) - pi)
      else if 0 < y then pi / 2 else if y < 0 then - pi / 2 else 0)"

definition calculate_distance :: "real \<Rightarrow> real \<Rightarrow> real \<Rightarrow> real \<Rightarrow> real" where
  "calculate_distance lat1 lng1 lat2 lng2 =
     (let R = 6371;
          lat1_rad = radians lat1;
          lat2_rad = radians lat2;
          delta_lat = radians (lat2 - lat1);
          delta_lng = radians (lng2 - lng1);
          a = sin (delta_lat / 2) * sin (delta_lat / 2) +
              cos lat1_rad * cos lat2_rad * sin (delta_lng / 2) * sin (delta_lng / 2);
          c = 2 * atan2 (sqrt a) (sqrt (1 - a))
      in R * c)"

text \<open>The loop of \<^verbatim>\<open>get_distance_factor\<close> over the sorted items: the first threshold that
  the distance does not exceed decides; \<^verbatim>\<open>0.0\<close> when the items are exhausted.\<close>

fun first_factor :: "real \<Rightarrow> (real \<times> real) list \<Rightarrow> real" where
  "first_factor distance_km [] = 0"
| "first_factor distance_km ((threshold, factor) # items) =
     (if distance_km \<le> threshold then factor else first_factor distance_km items)"

definition get_distance_factor :: "real \<Rightarrow> real" where
  "get_distance_factor distance_km = first_factor distance_km (sort DISTANCE_FACTORS)"

record Location =
  lat :: real
  lng :: real

text \<open>The \<^verbatim>\<open>for hazard in hazards\<close> loop of \<^verbatim>\<open>calculate_recommended_speed\<close>, with
  \<^verbatim>\<open>total_impact\<close> as accumulator.\<close>

fun impact_loop :: "real \<Rightarrow> real \<Rightarrow> real \<Rightarrow> Hazard list \<Rightarrow> real" where
  "impact_loop la lo total_impact [] = total_impact"
| "impact_loop la lo total_impact (hazard # hazards) =
     (let distance = calculate_distance la lo (latitude hazard) (longitude hazard);
          distance_factor = get_distance_factor distance;
          severity_factor = SPEED_FACTORS (severity_level hazard)
      in if 0 < distance_factor
         then impact_loop la lo (fadd total_impact (fmul (fsub 1 severity_factor) distance_factor)) hazards
         else impact_loop la lo total_impact hazards)"

definition calculate_recommended_speed :: "Location \<Rightarrow> Hazard list \<Rightarrow> int \<Rightarrow> py_error + int" where
  "calculate_recommended_speed current_location hazards base_speed_limit =
     (let total_impact = impact_loop (lat current_location) (lng current_location) 0 hazards;
          total_impact = min total_impact (rd (8 / 10))
      in case int_to_float base_speed_limit of
           Inl e \<Rightarrow> Inl e
         | Inr b \<Rightarrow> Inr (max (py_int (fmul b (fsub 1 total_impact))) 20))"

section \<open>The route recommendation operation (get\_speed\_recommendations)\<close>

text \<open>
  A waypoint of the request: \<^verbatim>\<open>lat\<close> and \<^verbatim>\<open>lng\<close> are read with \<^verbatim>\<open>waypoint['lat']\<close>,
  the speed limit with \<^verbatim>\<open>waypoint.get('speed_limit', 50)\<close>, so it may be absent.
\<close>

record Waypoint = Location +
  wp_speed_limit :: "int option"

text \<open>The JSON body of the request: \<^verbatim>\<open>data.get('waypoints', [])\<close> reads an absent key as the
  empty list, \<^verbatim>\<open>data.get('search_radius_km', 1.0)\<close> an absent radius as \<^verbatim>\<open>1.0\<close>.\<close>

record Request =
  waypoints :: "Waypoint list"
  search_radius_km :: "real option"

record HazardDetail =
  detail_id :: int
  detail_type :: string
  detail_severity :: string
  distance_km :: real
  detail_road_name :: string

record Recommendation =
  waypoint_index :: nat
  location :: Location
  speed_limit :: int
  recommended_speed :: int
  speed_reduction :: int
  hazards_count :: nat
  hazards :: "HazardDetail list"

text \<open>\<^verbatim>\<open>Hazard.query.filter(and_(...)).all()\<close> over the stored hazards \<open>db\<close>: the bounding box.\<close>

definition query_hazards :: "Hazard list \<Rightarrow> real \<Rightarrow> real \<Rightarrow> real \<Rightarrow> Hazard list" where
  "query_hazards db la lo radius_deg =
     filter (\<lambda>h. fsub la radius_deg \<le> latitude h \<and> latitude h \<le> fadd la radius_deg \<and>
                 fsub lo radius_deg \<le> longitude h \<and> longitude h \<le> fadd lo radius_deg) db"

text \<open>One entry of \<^verbatim>\<open>hazard_details\<close>.\<close>

definition hazard_detail :: "Hazard \<Rightarrow> real \<Rightarrow> HazardDetail" where
  "hazard_detail hazard distance =
     \<lparr>detail_id = hazard_id hazard,
      detail_type = HazardType_value (hazard_type hazard),
      detail_severity = SeverityLevel_value (severity_level hazard),
      distance_km = py_round distance 2,
      detail_road_name = road_name hazard\<rparr>"

text \<open>The loop that fills \<^verbatim>\<open>hazard_details\<close> by \<^verbatim>\<open>append\<close>, in the order of the query.\<close>

fun details_loop :: "real \<Rightarrow> real \<Rightarrow> real \<Rightarrow> HazardDetail list \<Rightarrow> Hazard list \<Rightarrow> HazardDetail list" where
  "details_loop la lo radius hazard_details [] = hazard_details"
| "details_loop la lo radius hazard_details (hazard # rest) =
     (let distance = calculate_distance la lo (latitude hazard) (longitude hazard)
      in if distance \<le> radius
         then details_loop la lo radius (hazard_details @ [hazard_detail hazard distance]) rest
         else details_loop la lo radius hazard_details rest)"

text \<open>The body of the loop over the waypoints, for waypoint \<open>i\<close>.\<close>

definition recommend_waypoint :: "Hazard list \<Rightarrow> real \<Rightarrow> nat \<Rightarrow> Waypoint \<Rightarrow> py_error + Recommendation" where
  "recommend_waypoint db radius_km i waypoint =
     (let la = lat waypoint;
          lo = lng waypoint;
          limit = (case wp_speed_limit waypoint of None \<Rightarrow> 50 | Some v \<Rightarrow> v);
          radius_deg = rd (radius_km / 111);
          found = query_hazards db la lo radius_deg
      in case calculate_recommended_speed \<lparr>lat = la, lng = lo\<rparr> found limit of
           Inl e \<Rightarrow> Inl e
         | Inr speed \<Rightarrow>
             (let hazard_details = details_loop la lo radius_km [] found
              in Inr \<lparr>waypoint_index = i,
                      location = \<lparr>lat = la, lng = lo\<rparr>,
                      speed_limit = limit,
                      recommended_speed = speed,
                      speed_reduction = limit - speed,
                      hazards_count = length hazard_details,
                      hazards = hazard_details\<rparr>))"

fun recommendations_loop :: "Hazard list \<Rightarrow> real \<Rightarrow> nat \<Rightarrow> Waypoint list \<Rightarrow> py_error + Recommendation list" where
  "recommendations_loop db radius_km i [] = Inr []"
| "recommendations_loop db radius_km i (waypoint # rest) =
     (case recommend_waypoint db radius_km i waypoint of
        Inl e \<Rightarrow> Inl e
      | Inr r \<Rightarrow>
          (case recommendations_loop db radius_km (Suc i) rest of
             Inl e \<Rightarrow> Inl e
           | Inr rs \<Rightarrow> Inr (r # rs)))"

section \<open>Route analysis (analyze\_route\_safety)\<close>

record RouteAnalysis =
  total_waypoints :: nat
  total_hazards :: nat
  average_speed_reduction :: real
  safety_level :: string
  hazard_distribution :: "string \<rightharpoonup> nat"
  severity_distribution :: "string \<rightharpoonup> nat"
  most_dangerous_segment :: "Recommendation option"
  estimated_extra_time_minutes :: real

text \<open>What a view function hands to \<^verbatim>\<open>jsonify\<close>: an error message, the text
  \<^verbatim>\<open>str(e)\<close> of a caught exception, or a result.\<close>

datatype Payload =
    ErrorPayload string
  | ExceptionPayload py_error
  | RecommendationsPayload "Recommendation list" real nat
  | AnalysisPayload RouteAnalysis "Recommendation list"

text \<open>A view returns either a bare response object (\<^verbatim>\<open>return jsonify(...)\<close>) or a tuple of
  a response object and a status code (\<^verbatim>\<open>return jsonify(...), 400\<close>).\<close>

datatype ViewResult = Response Payload | ResponseStatus Payload nat

definition get_speed_recommendations :: "Hazard list \<Rightarrow> Request \<Rightarrow> ViewResult" where
  "get_speed_recommendations db data =
     (let wps = waypoints data;
          radius_km = (case search_radius_km data of None \<Rightarrow> rd 1 | Some r \<Rightarrow> r)
      in if wps = [] then ResponseStatus (ErrorPayload ''No waypoints provided'') 400
         else case recommendations_loop db radius_km 0 wps of
                Inl e \<Rightarrow> ResponseStatus (ExceptionPayload e) 500
              | Inr recommendations \<Rightarrow>
                  Response (RecommendationsPayload recommendations radius_km (length wps)))"

text \<open>\<^verbatim>\<open>max(recommendations, key=...)\<close>: the first element with the greatest key.\<close>

fun max_by :: "('a \<Rightarrow> int) \<Rightarrow> 'a \<Rightarrow> 'a list \<Rightarrow> 'a" where
  "max_by key best [] = best"
| "max_by key best (x # xs) = (if key best < key x then max_by key x xs else max_by key best xs)"

text \<open>\<^verbatim>\<open>d[k] = d.get(k, 0) + 1\<close>, and \<^verbatim>\<open>d[k] += 1\<close> on a dictionary that holds the key.\<close>

definition bump :: "(string \<rightharpoonup> nat) \<Rightarrow> string \<Rightarrow> (string \<rightharpoonup> nat)" where
  "bump d k = d(k \<mapsto> (case d k of None \<Rightarrow> 1 | Some c \<Rightarrow> Suc c))"

definition all_details :: "Recommendation list \<Rightarrow> HazardDetail list" where
  "all_details recommendations = concat (map hazards recommendations)"

text \<open>True division of two \<^verbatim>\<open>int\<close>s: the correctly rounded quotient.\<close>

definition int_truediv :: "int \<Rightarrow> int \<Rightarrow> py_error + real" where
  "int_truediv a b =
     (if b = 0 then Inl ZeroDivisionError
      else if 2 ^ 1024 \<le> \<bar>rd (of_int a / of_int b)\<bar> then Inl OverflowError
      else Inr (rd (of_int a / of_int b)))"

text \<open>Lines 237 to 276: the report computed from the list of recommendations.\<close>

definition route_analysis :: "nat \<Rightarrow> Recommendation list \<Rightarrow> py_error + RouteAnalysis" where
  "route_analysis n_waypoints recommendations =
     (let total = sum_list (map hazards_count recommendations);
          total_speed_reduction = sum_list (map speed_reduction recommendations)
      in case (if recommendations \<noteq> []
               then int_truediv total_speed_reduction (int (length recommendations))
               else Inr 0) of
           Inl e \<Rightarrow> Inl e
         | Inr avg_speed_reduction \<Rightarrow>
            (case int_to_float total_speed_reduction of
               Inl e \<Rightarrow> Inl e
             | Inr t \<Rightarrow>
                Inr \<lparr>total_waypoints = n_waypoints,
                     total_hazards = total,
                     average_speed_reduction = py_round avg_speed_reduction 1,
                     safety_level =
                       (if total = 0 then ''safe''
                        else if avg_speed_reduction \<le> 10 then ''low_risk''
                        else if avg_speed_reduction \<le> 20 then ''moderate_risk''
                        else ''high_risk''),
                     hazard_distribution =
                       foldl (\<lambda>d h. bump d (detail_type h)) Map.empty (all_details recommendations),
                     severity_distribution =
                       foldl (\<lambda>d h. bump d (detail_severity h))
                         [''low'' \<mapsto> 0, ''medium'' \<mapsto> 0, ''high'' \<mapsto> 0] (all_details recommendations),
                     most_dangerous_segment =
                       (case recommendations of [] \<Rightarrow> None | r # rs \<Rightarrow> Some (max_by speed_reduction r rs)),
                     estimated_extra_time_minutes = py_round (fmul t (rd (1 / 10))) 1\<rparr>))"

text \<open>
  \<^verbatim>\<open>recommendations_response[0]\<close>: the first component when the inner view returned a
  tuple; a bare response object has no item access and raises \<^verbatim>\<open>TypeError\<close>, which the
  handler \<^verbatim>\<open>except Exception\<close> turns into status 500.
\<close>

definition analyze_route_safety :: "Hazard list \<Rightarrow> Request \<Rightarrow> ViewResult" where
  "analyze_route_safety db data =
     (let wps = waypoints data
      in if wps = [] then ResponseStatus (ErrorPayload ''No waypoints provided'') 400
         else case get_speed_recommendations db data of
                Response body \<Rightarrow> ResponseStatus (ExceptionPayload TypeError) 500
              | ResponseStatus body code \<Rightarrow>
                  (case body of
                     RecommendationsPayload recommendations radius n \<Rightarrow>
                       (case route_analysis (length wps) recommendations of
                          Inl e \<Rightarrow> ResponseStatus (ExceptionPayload e) 500
                        | Inr report \<Rightarrow> Response (AnalysisPayload report recommendations))
                   | _ \<Rightarrow> ResponseStatus (ErrorPayload ''Failed to get recommendations'') 500))"

section \<open>GPSSimulator (utils/gps\_simulator.py)\<close>

record GPSSimulator =
  current_lat :: real
  current_lng :: real
  speed_kmh :: real
  heading :: real
  accuracy :: real

text \<open>
  The values that the \<^verbatim>\<open>random\<close> module hands to one call of \<^verbatim>\<open>move\<close>, in the order
  of the calls: \<^verbatim>\<open>random.random()\<close> and \<^verbatim>\<open>random.uniform(-30, 30)\<close> in
  \<^verbatim>\<open>update_heading\<close>, \<^verbatim>\<open>random.random()\<close> and \<^verbatim>\<open>random.uniform(-10, 10)\<close> in
  \<^verbatim>\<open>update_speed\<close>, \<^verbatim>\<open>random.uniform(3, 8)\<close> for the accuracy. A uniform value is
  only drawn, and only used, when its roll is below the threshold.
\<close>

record Draws =
  turn_roll :: real
  heading_change :: real
  speed_roll :: real
  speed_change :: real
  new_accuracy :: real

text \<open>\<^verbatim>\<open>__init__\<close>; the initial heading and accuracy are drawn at random.\<close>

definition GPSSimulator_init :: "real \<Rightarrow> real \<Rightarrow> real \<Rightarrow> real \<Rightarrow> real \<Rightarrow> GPSSimulator" where
  "GPSSimulator_init start_lat start_lng speed heading0 accuracy0 =
     \<lparr>current_lat = start_lat, current_lng = start_lng, speed_kmh = speed,
      heading = heading0, accuracy = accuracy0\<rparr>"

definition calculate_new_position :: "GPSSimulator \<Rightarrow> real \<Rightarrow> real \<times> real" where
  "calculate_new_position self time_delta_seconds =
     (let speed_ms = rd (fmul (speed_kmh self) 1000 / 3600);
          distance_m = fmul speed_ms time_delta_seconds;
          distance_deg = rd (distance_m / 111320);
          lat_change = fmul distance_deg (cos (radians (heading self)));
          lng_change = fmul distance_deg (sin (radians (heading self)));
          new_lat = fadd (current_lat self) lat_change;
          new_lng = fadd (current_lng self) lng_change
      in (new_lat, new_lng))"

text \<open>\<^verbatim>\<open>x % 360\<close> on floats: the remainder takes the sign of the divisor.\<close>

definition fmod360 :: "real \<Rightarrow> real" where
  "fmod360 x =
     (if 0 \<le> x then x - 360 * of_int \<lfloor>x / 360\<rfloor>
      else (let r = \<bar>x\<bar> - 360 * of_int \<lfloor>\<bar>x\<bar> / 360\<rfloor> in if r = 0 then 0 else rd (360 - r)))"

definition update_heading :: "GPSSimulator \<Rightarrow> Draws \<Rightarrow> GPSSimulator" where
  "update_heading self d =
     (if turn_roll d < rd (1 / 10)
      then self\<lparr>heading := fmod360 (fadd (heading self) (heading_change d))\<rparr>
      else self)"

definition update_speed :: "GPSSimulator \<Rightarrow> Draws \<Rightarrow> GPSSimulator" where
  "update_speed self d =
     (if speed_roll d < rd (5 / 100)
      then self\<lparr>speed_kmh := max 20 (min 80 (fadd (speed_kmh self) (speed_change d)))\<rparr>
      else self)"

definition GPS_move :: "GPSSimulator \<Rightarrow> real \<Rightarrow> Draws \<Rightarrow> GPSSimulator" where
  "GPS_move self time_delta_seconds d =
     (let (new_lat, new_lng) = calculate_new_position self time_delta_seconds;
          self = self\<lparr>current_lat := new_lat, current_lng := new_lng\<rparr>;
          self = update_heading self d;
          self = update_speed self d
      in self\<lparr>accuracy := new_accuracy d\<rparr>)"

text \<open>The entry \<^verbatim>\<open>'speed'\<close> of the report of \<^verbatim>\<open>get_current_position\<close>.\<close>

definition reported_speed :: "GPSSimulator \<Rightarrow> real" where
  "reported_speed self = py_round (speed_kmh self) 1"

text \<open>A sequence of \<^verbatim>\<open>move\<close> calls, each with its time delta and its random draws.\<close>

fun GPS_moves :: "GPSSimulator \<Rightarrow> (real \<times> Draws) list \<Rightarrow> GPSSimulator" where
  "GPS_moves self [] = self"
| "GPS_moves self ((dt, d) # calls) = GPS_moves (GPS_move self dt d) calls"

section \<open>RouteSimulator (utils/gps\_simulator.py)\<close>

record RouteSimulator =
  route_waypoints :: "Location list"
  current_waypoint_index :: nat
  route_speed_kmh :: real
  progress :: real
  gps_simulator :: GPSSimulator


text \<open>The test \<^verbatim>\<open>self.current_waypoint_index >= len(self.waypoints) - 1\<close>, on Python's integers.\<close>

definition at_final_waypoint :: "RouteSimulator \<Rightarrow> bool" where
  "at_final_waypoint self \<longleftrightarrow>
     int (length (route_waypoints self)) - 1 \<le> int (current_waypoint_index self)"

text \<open>The length of the current segment, as \<^verbatim>\<open>move\<close> computes it (not at the final waypoint).\<close>

definition segment_distance :: "RouteSimulator \<Rightarrow> real" where
  "segment_distance self =
     (let current = route_waypoints self ! current_waypoint_index self;
          next_wp = route_waypoints self ! (current_waypoint_index self + 1)
      in calculate_distance (lat current) (lng current) (lat next_wp) (lng next_wp))"

text \<open>The fraction of the segment covered in one call: \<^verbatim>\<open>distance_m / (total_distance * 1000)\<close>.\<close>

definition distance_increment :: "RouteSimulator \<Rightarrow> real \<Rightarrow> py_error + real" where
  "distance_increment self time_delta_seconds =
     (let speed_ms = rd (fmul (route_speed_kmh self) 1000 / 3600);
          distance_m = fmul speed_ms time_delta_seconds;
          total_distance = segment_distance self
      in fdiv distance_m (fmul total_distance 1000))"

text \<open>\<^verbatim>\<open>RouteSimulator.move\<close>. An exception leaves the object as it was.\<close>

definition move :: "RouteSimulator \<Rightarrow> real \<Rightarrow> py_error + RouteSimulator" where
  "move self time_delta_seconds =
     (if at_final_waypoint self then Inr self
      else
        case distance_increment self time_delta_seconds of
          Inl e \<Rightarrow> Inl e
        | Inr inc \<Rightarrow>
            (let p = fadd (progress self) inc
             in if 1 \<le> p
                then Inr (self\<lparr>current_waypoint_index := current_waypoint_index self + 1,
                              progress := 0\<rparr>)
                else Inr (self\<lparr>progress := p\<rparr>)))"

text \<open>
  The effect of \<^verbatim>\<open>RouteSimulator.get_current_position\<close> on the object: at the final
  waypoint nothing, before it the interpolated point is written into the embedded
  simulator. In both cases the report is that of the embedded simulator.
\<close>

definition sync_position :: "RouteSimulator \<Rightarrow> RouteSimulator" where
  "sync_position self =
     (if at_final_waypoint self then self
      else
        let current = route_waypoints self ! current_waypoint_index self;
            next_wp = route_waypoints self ! (current_waypoint_index self + 1);
            la = fadd (lat current) (fmul (fsub (lat next_wp) (lat current)) (progress self));
            lo = fadd (lng current) (fmul (fsub (lng next_wp) (lng current)) (progress self))
        in self\<lparr>gps_simulator := (gps_simulator self)\<lparr>current_lat := la, current_lng := lo\<rparr>\<rparr>)"


section \<open>The distance factor in the words of the specification\<close>

text \<open>
  A step function over the thresholds \<open>0.1 \<rightarrow> 1.0\<close>, \<open>0.2 \<rightarrow> 0.8\<close>, \<open>0.5 \<rightarrow> 0.5\<close>,
  \<open>1.0 \<rightarrow> 0.2\<close>, \<open>2.0 \<rightarrow> 0.1\<close>: the factor of the smallest threshold that is at least the
  distance, and \<open>0\<close> when the distance exceeds the largest threshold. The decimals are
  the float literals of the same spelling.
\<close>

definition spec_thresholds :: "(real \<times> real) list" where
  "spec_thresholds =
     [(rd (1 / 10), rd 1), (rd (2 / 10), rd (8 / 10)), (rd (5 / 10), rd (5 / 10)),
      (rd 1, rd (2 / 10)), (rd 2, rd (1 / 10))]"

definition distance_factor_spec :: "real \<Rightarrow> real" where
  "distance_factor_spec dist_km =
     (case filter (\<lambda>t. dist_km \<le> t) (map fst spec_thresholds) of
        [] \<Rightarrow> 0
      | t # ts \<Rightarrow>
          (case map_of spec_thresholds (Min (set (t # ts))) of Some factor \<Rightarrow> factor | None \<Rightarrow> 0))"

section \<open>Properties of the rounding\<close>

lemma expo_up_bounds:
  "1 \<le> x \<Longrightarrow> 2 powi (expo_up x e - e) \<le> x \<and> x < 2 powi (expo_up x e - e + 1)"
proof (induction x e rule: expo_up.induct)
  case (1 x e)
  show ?case
  proof (cases "x < 2")
    case True
    then show ?thesis using 1(2) by (simp add: expo_up.simps)
  next
    case False
    then have h: "1 \<le> x / 2" by simp
    have eq: "expo_up x e = expo_up (x / 2) (e + 1)" using False by (subst expo_up.simps) simp
    from 1(1)[OF False h]
    have a: "2 powi (expo_up x e - (e + 1)) \<le> x / 2"
      and b: "x / 2 < 2 powi (expo_up x e - (e + 1) + 1)"
      by (simp_all add: eq)
    have s: "2 powi (expo_up x e - e) = 2 * (2::real) powi (expo_up x e - (e + 1))"
      using power_int_add[of "2::real" "expo_up x e - (e + 1)" 1] by (simp add: algebra_simps)
    have s2: "2 powi (expo_up x e - e + 1) = 2 * (2::real) powi (expo_up x e - (e + 1) + 1)"
      using power_int_add[of "2::real" "expo_up x e - (e + 1) + 1" 1] by (simp add: algebra_simps)
    show ?thesis using a b unfolding s s2 by simp
  qed
qed

lemma expo_down_bounds:
  "0 < x \<Longrightarrow> x < 1 \<Longrightarrow> 2 powi (expo_down x e - e) \<le> x \<and> x < 2 powi (expo_down x e - e + 1)"
proof (induction x e rule: expo_down.induct)
  case (1 x e)
  have rec: "expo_down x e = expo_down (2 * x) (e - 1)"
    using 1(2,3) by (subst expo_down.simps) simp
  show ?case
  proof (cases "1 \<le> 2 * x")
    case True
    then have "expo_down (2 * x) (e - 1) = e - 1" by (subst expo_down.simps) simp
    then have "expo_down x e - e = -1" using rec by simp
    then show ?thesis using True 1(3) by simp
  next
    case False
    then have c: "\<not> (x \<le> 0 \<or> 1 \<le> x)" "0 < 2 * x" "2 * x < 1" using 1(2) by auto
    from 1(1)[OF c]
    have a: "2 powi (expo_down x e - (e - 1)) \<le> 2 * x"
      and b: "2 * x < 2 powi (expo_down x e - (e - 1) + 1)"
      by (simp_all add: rec)
    have s: "2 powi (expo_down x e - (e - 1)) = 2 * (2::real) powi (expo_down x e - e)"
      using power_int_add[of "2::real" "expo_down x e - e" 1] by (simp add: algebra_simps)
    have s2: "2 powi (expo_down x e - (e - 1) + 1) = 2 * (2::real) powi (expo_down x e - e + 1)"
      using power_int_add[of "2::real" "expo_down x e - e + 1" 1] by (simp add: algebra_simps)
    show ?thesis using a b unfolding s s2 by simp
  qed
qed

lemma expo_bounds: "0 < x \<Longrightarrow> 2 powi (expo x) \<le> x \<and> x < 2 powi (expo x + 1)"
  using expo_up_bounds[of x 0] expo_down_bounds[of x 0]
  by (cases "1 \<le> x") (simp_all add: expo_def)

lemma pow2_less_imp: "(2::real) powi a < 2 powi b \<Longrightarrow> a < b"
  using power_int_increasing[of b a "2::real"] by (cases "a < b") simp_all

lemma pow2_le_imp: "(2::real) powi a \<le> 2 powi b \<Longrightarrow> a \<le> b"
  using power_int_strict_increasing[of b a "2::real"] by (cases "a \<le> b") simp_all

lemma rne_of_int: "rne (of_int n) = n"
  by (simp add: rne_def)

lemma rne_le_int:
  assumes "q \<le> of_int n"
  shows "rne q \<le> n"
proof (cases "q = of_int n")
  case True
  then show ?thesis by (simp add: rne_of_int)
next
  case False
  then have "q < of_int n" using assms by simp
  then have "\<lfloor>q\<rfloor> < n" by linarith
  then show ?thesis by (simp add: rne_def Let_def)
qed

lemma rne_ge_int:
  assumes "of_int n \<le> q"
  shows "n \<le> rne q"
proof -
  have "n \<le> \<lfloor>q\<rfloor>" using assms by linarith
  then show ?thesis by (simp add: rne_def Let_def)
qed

lemma rd_zero: "rd 0 = 0"
  by (simp add: rd_def)


lemma rd_pos:
  assumes a: "0 < x"
  shows "0 < rd x"
proof -
  let ?u = "(2::real) powi (expo \<bar>x\<bar> - 52)"
  have u: "0 < ?u" by simp
  have "2 powi (expo x) \<le> x" using expo_bounds[OF a] by simp
  moreover have "(2::real) powi (expo x) = 2 powi 52 * ?u"
    using a power_int_add[of "2::real" 52 "expo x - 52"] by simp
  ultimately have "2 powi 52 * ?u \<le> x" by simp
  then have "2 powi 52 \<le> x / ?u" using u by (simp add: pos_le_divide_eq)
  moreover have "(1::real) \<le> 2 powi 52" by simp
  ultimately have "(1::real) \<le> x / ?u" by (rule order_trans[rotated])
  then have "of_int 1 \<le> x / ?u" by simp
  then have "1 \<le> rne (x / ?u)" by (rule rne_ge_int)
  then have "0 < of_int (rne (x / ?u)) * ?u" using u by simp
  then show ?thesis using a by (simp add: rd_def Let_def)
qed


lemma rd_eval:
  assumes "0 < \<bar>x\<bar>" "2 powi e \<le> \<bar>x\<bar>" "\<bar>x\<bar> < 2 powi (e + 1)"
  shows "rd x = of_int (rne (x / 2 powi (e - 52))) * 2 powi (e - 52)"
proof -
  have b: "2 powi (expo \<bar>x\<bar>) \<le> \<bar>x\<bar>" "\<bar>x\<bar> < 2 powi (expo \<bar>x\<bar> + 1)"
    using expo_bounds[OF assms(1)] by simp_all
  have "(2::real) powi e < 2 powi (expo \<bar>x\<bar> + 1)" using assms(2) b(2) by linarith
  then have 1: "e < expo \<bar>x\<bar> + 1" by (rule pow2_less_imp)
  have "(2::real) powi (expo \<bar>x\<bar>) < 2 powi (e + 1)" using assms(3) b(1) by linarith
  then have 2: "expo \<bar>x\<bar> < e + 1" by (rule pow2_less_imp)
  from 1 2 have "expo \<bar>x\<bar> = e" by simp
  then show ?thesis using assms(1) by (auto simp: rd_def Let_def)
qed

lemma rd_scale_up:
  assumes "2 ^ 52 \<le> \<bar>x\<bar> * 2 ^ k" "\<bar>x\<bar> * 2 ^ k < 2 ^ 53"
  shows "rd x = of_int (rne (x * 2 ^ k)) / 2 ^ k"
proof -
  have p: "0 < \<bar>x\<bar>" using assms(1) by (cases "x = 0") simp_all
  have u: "(2::real) powi (52 - int k - 52) = 1 / 2 ^ k"
    by (simp add: power_int_minus_divide)
  have a: "(2::real) powi (52 - int k) = 2 ^ 52 / 2 ^ k"
    using power_int_diff[of "2::real" 52 "int k"] by simp
  have b: "(2::real) powi (52 - int k + 1) = 2 ^ 53 / 2 ^ k"
    using power_int_diff[of "2::real" 53 "int k"] by (simp add: algebra_simps)
  have "2 powi (52 - int k) \<le> \<bar>x\<bar>" "\<bar>x\<bar> < 2 powi (52 - int k + 1)"
    unfolding a b using assms by (simp_all add: field_simps)
  from rd_eval[OF p this] show ?thesis unfolding u by simp
qed

lemma rd_scale_down:
  assumes "2 ^ 52 \<le> \<bar>x\<bar> / 2 ^ k" "\<bar>x\<bar> / 2 ^ k < 2 ^ 53"
  shows "rd x = of_int (rne (x / 2 ^ k)) * 2 ^ k"
proof -
  have p: "0 < \<bar>x\<bar>" using assms(1) by (cases "x = 0") simp_all
  have u: "(2::real) powi (52 + int k - 52) = 2 ^ k" by simp
  have a: "(2::real) powi (52 + int k) = 2 ^ 52 * 2 ^ k"
    using power_int_add[of "2::real" 52 "int k"] by simp
  have b: "(2::real) powi (52 + int k + 1) = 2 ^ 53 * 2 ^ k"
    using power_int_add[of "2::real" 53 "int k"] by (simp add: algebra_simps)
  have "2 powi (52 + int k) \<le> \<bar>x\<bar>" "\<bar>x\<bar> < 2 powi (52 + int k + 1)"
    unfolding a b using assms by (simp_all add: field_simps)
  from rd_eval[OF p this] show ?thesis unfolding u by simp
qed

lemma rd_of_int:
  assumes "\<bar>n\<bar> \<le> 2 ^ 53"
  shows "rd (of_int n) = of_int n"
proof (cases "n = 0")
  case True
  then show ?thesis by (simp add: rd_zero)
next
  case False
  define x :: real where "x = of_int n"
  have p: "0 < \<bar>x\<bar>" using False by (simp add: x_def)
  define e where "e = expo \<bar>x\<bar>"
  have le: "\<bar>x\<bar> \<le> 2 ^ 53" using assms unfolding x_def
    by (metis of_int_abs of_int_le_numeral_power_cancel_iff)
  have lo: "2 powi e \<le> \<bar>x\<bar>" using expo_bounds[OF p] by (simp add: e_def)
  then have "(2::real) powi e \<le> 2 powi 53" using le by simp
  then have e: "e \<le> 53" by (rule pow2_le_imp)
  have "\<exists>m::int. x / 2 powi (e - 52) = of_int m"
  proof (cases "e \<le> 52")
    case True
    define k where "k = nat (52 - e)"
    have u: "(2::real) powi (e - 52) = 1 / 2 ^ k"
      using True by (simp add: power_int_def k_def field_simps)
    have "x / (1 / 2 ^ k) = of_int (n * 2 ^ k)" by (simp add: x_def)
    then show ?thesis unfolding u by blast
  next
    case False
    then have e53: "e = 53" using e by simp
    then have "\<bar>x\<bar> = 2 ^ 53" using lo le by simp
    then have "x = 2 ^ 53 \<or> x = - (2 ^ 53)" by linarith
    then have "x / 2 powi (e - 52) = of_int (2 ^ 52) \<or> x / 2 powi (e - 52) = of_int (- (2 ^ 52))"
      by (auto simp: e53)
    then show ?thesis by blast
  qed
  then obtain m :: int where m: "x / 2 powi (e - 52) = of_int m" by blast
  have "rd x = of_int (rne (x / 2 powi (e - 52))) * 2 powi (e - 52)"
    using p by (auto simp: rd_def Let_def e_def)
  also have "\<dots> = of_int m * 2 powi (e - 52)" by (simp add: m rne_of_int)
  also have "\<dots> = x" using m by (simp add: field_simps)
  finally show ?thesis by (simp add: x_def)
qed

lemma rd_le_int:
  assumes "0 \<le> x" "x \<le> of_int n" "x \<le> 2 ^ 53"
  shows "rd x \<le> of_int n"
proof (cases "x = 0 \<or> x = 2 ^ 53")
  case True
  then show ?thesis
  proof
    assume "x = 0"
    then show ?thesis using assms by (simp add: rd_zero)
  next
    assume x: "x = 2 ^ 53"
    have "rd (of_int (2 ^ 53)) = of_int (2 ^ 53)" by (rule rd_of_int) simp
    then show ?thesis using assms(2) x by simp
  qed
next
  case False
  then have p: "0 < x" and lt: "x < 2 ^ 53" using assms(1,3) by simp_all
  define e where "e = expo \<bar>x\<bar>"
  have "2 powi e \<le> x" using expo_bounds[OF p] p by (simp add: e_def)
  then have "(2::real) powi e < 2 powi 53" using lt by simp
  then have e: "e \<le> 52" using pow2_less_imp[of e 53] by simp
  define k where "k = nat (52 - e)"
  have u: "(2::real) powi (e - 52) = 1 / 2 ^ k"
    using e by (simp add: power_int_def k_def field_simps)
  have "x / (1 / 2 ^ k) \<le> of_int (n * 2 ^ k)" using assms(2) by simp
  then have "rne (x / (1 / 2 ^ k)) \<le> n * 2 ^ k" by (rule rne_le_int)
  then have "(of_int (rne (x / (1 / 2 ^ k))) :: real) \<le> of_int (n * 2 ^ k)" by linarith
  then have "of_int (rne (x / (1 / 2 ^ k))) * (1 / 2 ^ k) \<le> (of_int n :: real)"
    by (simp add: field_simps)
  then show ?thesis using p u by (simp add: rd_def Let_def e_def)
qed

lemma rd_one: "rd 1 = 1"
  using rd_of_int[of 1] by simp

lemma rd_two: "rd 2 = 2"
  using rd_of_int[of 2] by simp

lemma rd_half: "rd (1 / 2) = 1 / 2"
  using rd_scale_up[of "1 / 2" 53] by (simp add: rne_def Let_def)

lemma rd_075: "rd (3 / 4) = 3 / 4"
  using rd_scale_up[of "3 / 4" 53] by (simp add: rne_def Let_def)

lemma rd_090: "rd (9 / 10) = 8106479329266893 / 9007199254740992"
  using rd_scale_up[of "9 / 10" 53] by (simp add: rne_def Let_def)

lemma rd_01: "rd (1 / 10) = 3602879701896397 / 36028797018963968"
  using rd_scale_up[of "1 / 10" 56] by (simp add: rne_def Let_def)

lemma rd_02: "rd (1 / 5) = 3602879701896397 / 18014398509481984"
  using rd_scale_up[of "1 / 5" 55] by (simp add: rne_def Let_def)

lemma rd_08: "rd (4 / 5) = 3602879701896397 / 4503599627370496"
  using rd_scale_up[of "4 / 5" 53] by (simp add: rne_def Let_def)

lemma rd_005: "rd (1 / 20) = 3602879701896397 / 72057594037927936"
  using rd_scale_up[of "1 / 20" 57] by (simp add: rne_def Let_def)

text \<open>The values of the float literals of the source; the simplifier first reduces the
  fraction under \<open>rd\<close> to lowest terms.\<close>

lemmas rd_literals = rd_one rd_two rd_half rd_075 rd_090 rd_01 rd_02 rd_08 rd_005


section \<open>Properties of the engine\<close>

lemma sort_DISTANCE_FACTORS: "sort DISTANCE_FACTORS = DISTANCE_FACTORS"
  by (simp add: DISTANCE_FACTORS_def rd_literals)

lemma get_distance_factor_cases:
  "get_distance_factor d =
     (if d \<le> rd (1 / 10) then 1 else if d \<le> rd (2 / 10) then rd (8 / 10)
      else if d \<le> 1 / 2 then 1 / 2 else if d \<le> 1 then rd (2 / 10)
      else if d \<le> 2 then rd (1 / 10) else 0)"
  unfolding get_distance_factor_def sort_DISTANCE_FACTORS
  by (simp add: DISTANCE_FACTORS_def rd_one rd_two rd_half)





lemma py_int_of_int: "py_int (of_int n) = n"
  by (simp add: py_int_def)

lemma int_to_float_exact:
  assumes "\<bar>n\<bar> \<le> 2 ^ 53"
  shows "int_to_float n = Inr (of_int n)"
proof -
  have "\<bar>of_int n :: real\<bar> \<le> 2 ^ 53"
    using assms by (metis of_int_abs of_int_le_numeral_power_cancel_iff)
  then have "\<not> 2 ^ 1024 \<le> \<bar>of_int n :: real\<bar>" by simp
  then show ?thesis by (simp add: int_to_float_def rd_of_int[OF assms])
qed



section \<open>Further properties of the rounding\<close>

lemma rd_ge_pow2:
  assumes a: "0 < x"
  shows "2 powi (expo x) \<le> rd x"
proof -
  let ?u = "(2::real) powi (expo \<bar>x\<bar> - 52)"
  have u: "0 < ?u" by simp
  have f1: "2 powi (expo x) \<le> x" using expo_bounds[OF a] by simp
  have f2: "(2::real) powi (expo x) = 2 powi 52 * ?u"
    using a power_int_add[of "2::real" 52 "expo x - 52"] by simp
  have "2 powi 52 * ?u \<le> x" using f1 unfolding f2 .
  then have "2 powi 52 \<le> x / ?u" using u by (simp add: pos_le_divide_eq)
  then have "of_int (2 ^ 52) \<le> x / ?u" by simp
  then have "2 ^ 52 \<le> rne (x / ?u)" by (rule rne_ge_int)
  then have "(of_int (2 ^ 52) :: real) \<le> of_int (rne (x / ?u))" by (simp only: of_int_le_iff)
  then have "(2 ^ 52 :: real) \<le> of_int (rne (x / ?u))" by simp
  then have "2 ^ 52 * ?u \<le> of_int (rne (x / ?u)) * ?u" using u by simp
  then show ?thesis using a f2 by (simp add: rd_def Let_def)
qed

lemma rd_ge_int:
  assumes "0 < x" "of_int n \<le> x" "n \<le> 2 ^ 53"
  shows "of_int n \<le> rd x"
proof (cases "expo x \<le> 52")
  case True
  define k where "k = nat (52 - expo x)"
  have u: "(2::real) powi (expo \<bar>x\<bar> - 52) = 1 / 2 ^ k"
    using True assms(1) by (simp add: power_int_def k_def field_simps)
  have "of_int (n * 2 ^ k) \<le> x / (1 / 2 ^ k)" using assms(2) by simp
  then have "n * 2 ^ k \<le> rne (x / (1 / 2 ^ k))" by (rule rne_ge_int)
  then have "(of_int (n * 2 ^ k) :: real) \<le> of_int (rne (x / (1 / 2 ^ k)))" by linarith
  then have "(of_int n :: real) \<le> of_int (rne (x / (1 / 2 ^ k))) * (1 / 2 ^ k)"
    by (simp add: field_simps)
  then show ?thesis using assms(1) u by (simp add: rd_def Let_def)
next
  case False
  then have "53 \<le> expo x" by simp
  then have "(2::real) powi 53 \<le> 2 powi (expo x)" by (intro power_int_increasing) simp_all
  also have "\<dots> \<le> rd x" by (rule rd_ge_pow2[OF assms(1)])
  finally have "(2::real) ^ 53 \<le> rd x" by simp
  moreover have "(of_int n :: real) \<le> 2 ^ 53" using assms(3)
    by (metis of_int_le_numeral_power_cancel_iff)
  ultimately show ?thesis by linarith
qed


lemma rne_zero: "rne 0 = 0"
  using rne_of_int[of 0] by simp

lemma py_round_zero: "py_round 0 n = 0"
  by (simp add: py_round_def rne_zero rd_zero)

lemma int_to_float_zero: "int_to_float 0 = Inr 0"
  by (simp add: int_to_float_def rd_zero)

lemma int_truediv_zero: "b \<noteq> 0 \<Longrightarrow> int_truediv 0 b = Inr 0"
  by (simp add: int_truediv_def rd_zero)

lemma py_round_range:
  assumes "20 \<le> x" "x \<le> 80"
  shows "20 \<le> py_round x 1 \<and> py_round x 1 \<le> 80"
proof -
  have "of_int 200 \<le> x * 10" "x * 10 \<le> of_int 800" using assms by simp_all
  then have "200 \<le> rne (x * 10)" "rne (x * 10) \<le> 800"
    by (simp_all only: rne_ge_int rne_le_int)
  then have b: "(200::real) \<le> of_int (rne (x * 10))" "of_int (rne (x * 10)) \<le> (800::real)"
    by linarith+
  let ?y = "of_int (rne (x * 10)) / (10::real)"
  have y: "of_int 20 \<le> ?y" "?y \<le> of_int 80" "0 < ?y" "0 \<le> ?y" "?y \<le> 2 ^ 53"
    using b by simp_all
  have "of_int 20 \<le> rd ?y" using y by (intro rd_ge_int) simp_all
  moreover have "rd ?y \<le> of_int 80" using y by (intro rd_le_int) simp_all
  ultimately show ?thesis by (simp add: py_round_def)
qed


section \<open>Properties of the haversine distance\<close>




section \<open>Properties of the route recommendation\<close>







section \<open>Properties of the route analysis\<close>

lemma max_by_first: "\<forall>x\<in>set xs. key x \<le> key b \<Longrightarrow> max_by key b xs = b"
  by (induction xs) auto

lemma max_by_mem: "max_by key b xs \<in> set (b # xs)"
  by (induction xs arbitrary: b) auto

lemma sum_list_zero_nat: "\<forall>r\<in>set rs. f r = (0::nat) \<Longrightarrow> sum_list (map f rs) = 0"
  by (induction rs) auto

lemma sum_list_zero_int: "\<forall>r\<in>set rs. f r = (0::int) \<Longrightarrow> sum_list (map f rs) = 0"
  by (induction rs) auto

lemma analyze_empty:
  "waypoints data = [] \<Longrightarrow>
   analyze_route_safety db data = ResponseStatus (ErrorPayload ''No waypoints provided'') 400"
  by (simp add: analyze_route_safety_def)

lemma get_speed_recommendations_shape:
  assumes "waypoints data \<noteq> []"
  shows "(\<exists>recs radius n. get_speed_recommendations db data = Response (RecommendationsPayload recs radius n))
       \<or> (\<exists>e. get_speed_recommendations db data = ResponseStatus (ExceptionPayload e) 500)"
  using assms by (auto simp: get_speed_recommendations_def Let_def split: sum.splits)

lemma analyze_route_safety_nonempty:
  assumes "waypoints data \<noteq> []"
  shows "analyze_route_safety db data = ResponseStatus (ExceptionPayload TypeError) 500
       \<or> analyze_route_safety db data = ResponseStatus (ErrorPayload ''Failed to get recommendations'') 500"
  using get_speed_recommendations_shape[OF assms, of db] assms
  by (auto simp: analyze_route_safety_def Let_def)

lemma route_analysis_no_hazards:
  assumes "\<forall>r\<in>set recs. hazards_count r = 0" "route_analysis n recs = Inr rep"
  shows "total_hazards rep = 0 \<and> safety_level rep = ''safe'' \<and>
         (recs \<noteq> [] \<longrightarrow> (\<exists>r\<in>set recs. most_dangerous_segment rep = Some r))"
proof -
  have z: "sum_list (map hazards_count recs) = 0" using assms(1) by (rule sum_list_zero_nat)
  have t: "total_hazards rep = 0"
    using assms(2) z by (auto simp: route_analysis_def Let_def split: sum.splits if_splits)
  have l: "safety_level rep = ''safe''"
    using assms(2) z by (auto simp: route_analysis_def Let_def split: sum.splits if_splits)
  have m: "most_dangerous_segment rep =
             (case recs of [] \<Rightarrow> None | r # rs \<Rightarrow> Some (max_by speed_reduction r rs))"
    using assms(2) by (auto simp: route_analysis_def Let_def split: sum.splits if_splits)
  have "recs \<noteq> [] \<longrightarrow> (\<exists>r\<in>set recs. most_dangerous_segment rep = Some r)"
  proof (cases recs)
    case Nil
    then show ?thesis by simp
  next
    case (Cons r rs)
    have "max_by speed_reduction r rs \<in> set (r # rs)" by (rule max_by_mem)
    then show ?thesis using m Cons by simp
  qed
  with t l show ?thesis by simp
qed

lemma route_analysis_all_zero:
  assumes "recs \<noteq> []" "\<forall>r\<in>set recs. hazards_count r = 0 \<and> speed_reduction r = 0"
  shows "\<exists>rep. route_analysis n recs = Inr rep \<and> total_hazards rep = 0 \<and>
           average_speed_reduction rep = 0 \<and> safety_level rep = ''safe'' \<and>
           most_dangerous_segment rep = Some (hd recs)"
proof -
  have z: "sum_list (map hazards_count recs) = 0" using assms(2) by (intro sum_list_zero_nat) simp
  have s: "sum_list (map speed_reduction recs) = 0" using assms(2) by (intro sum_list_zero_int) simp
  obtain r rs where c: "recs = r # rs" using assms(1) by (cases recs) auto
  have "\<forall>x\<in>set rs. speed_reduction x \<le> speed_reduction r" using assms(2) c by simp
  then have mx: "max_by speed_reduction r rs = r" by (rule max_by_first)
  have l: "int_truediv 0 (int (length recs)) = Inr 0" using assms(1) by (intro int_truediv_zero) simp
  have md: "(case recs of [] \<Rightarrow> None | r # rs \<Rightarrow> Some (max_by speed_reduction r rs)) = Some (hd recs)"
    using c mx by simp
  show ?thesis
    using assms(1)
    by (simp add: route_analysis_def Let_def z s l md int_to_float_zero py_round_zero)
qed

section \<open>Properties of the simulators\<close>

lemma update_speed_range:
  assumes "20 \<le> speed_kmh s" "speed_kmh s \<le> 80"
  shows "20 \<le> speed_kmh (update_speed s d) \<and> speed_kmh (update_speed s d) \<le> 80"
  using assms by (simp add: update_speed_def)

lemma GPS_move_speed: "speed_kmh (GPS_move s dt d) = speed_kmh (update_speed s d)"
  by (simp add: GPS_move_def update_speed_def update_heading_def Let_def split: prod.splits)

lemma GPS_moves_range:
  "20 \<le> speed_kmh s \<Longrightarrow> speed_kmh s \<le> 80 \<Longrightarrow>
   20 \<le> speed_kmh (GPS_moves s calls) \<and> speed_kmh (GPS_moves s calls) \<le> 80"
proof (induction calls arbitrary: s)
  case Nil
  then show ?case by simp
next
  case (Cons c calls)
  obtain dt d where c: "c = (dt, d)" by (cases c)
  have "20 \<le> speed_kmh (GPS_move s dt d) \<and> speed_kmh (GPS_move s dt d) \<le> 80"
    unfolding GPS_move_speed using Cons.prems by (rule update_speed_range)
  then show ?case using Cons.IH[of "GPS_move s dt d"] by (simp add: c)
qed

lemma GPS_move_lat_pos:
  "0 < current_lat (GPS_move \<lparr>current_lat = 0, current_lng = 0, speed_kmh = 50, heading = 0, accuracy = 5\<rparr> 1 d)"
proof -
  have "0 < rd (rd (rd (rd (rd (50 * 1000) / 3600) * 1) / 111320) * 1)"
    by (intro rd_pos mult_pos_pos divide_pos_pos) simp_all
  then have "0 < rd (0 + rd (rd (rd (rd (rd (50 * 1000) / 3600) * 1) / 111320) * 1))"
    by (intro rd_pos) simp
  then show ?thesis
    by (simp add: GPS_move_def calculate_new_position_def update_heading_def update_speed_def
        Let_def fmul_def fadd_def radians_def)
qed







section \<open>Claims about the engine\<close>







text \<open>
  C4 (as stated: for every integer speed limit the result on the empty hazard sequence is
  exactly \<open>max speedLimit 20\<close>). The limit passes through a float. Counterexample: the
  limit \<open>2^53 + 1\<close> gives \<open>2^53\<close>.
\<close>

theorem no_hazards_speed_rounded:
  "calculate_recommended_speed \<lparr>lat = 0, lng = 0\<rparr> [] 9007199254740993 = Inr 9007199254740992
   \<and> max (9007199254740993::int) 20 \<noteq> 9007199254740992"
proof -
  have a: "rd 9007199254740993 = 9007199254740992"
    using rd_scale_down[of 9007199254740993 1] by (simp add: rne_def Let_def)
  have b: "rd 9007199254740992 = 9007199254740992"
    using rd_scale_down[of 9007199254740992 1] by (simp add: rne_def Let_def)
  have c: "min 0 (rd (4 / 5)) = 0" by (simp add: rd_08)
  show ?thesis
    by (simp add: calculate_recommended_speed_def Let_def int_to_float_def a b c fsub_def
        fmul_def rd_one py_int_def)
qed

text \<open>
  C4, amended: for every point and every integer speed limit of magnitude at most \<open>2^53\<close>,
  \<open>calculate_recommended_speed\<close> on the empty hazard sequence returns exactly
  \<open>max speedLimit 20\<close> and raises no exception; the floor of 20 wins below 20.
\<close>

theorem no_hazards_speed:
  assumes "\<bar>limit\<bar> \<le> 2 ^ 53"
  shows "calculate_recommended_speed loc [] limit = Inr (max limit 20)"
proof -
  have c: "min 0 (rd (4 / 5)) = 0" by (simp add: rd_08)
  show ?thesis
    by (simp add: calculate_recommended_speed_def Let_def int_to_float_exact[OF assms] c
        fsub_def fmul_def rd_one rd_of_int[OF assms] py_int_of_int)
qed

theorem no_hazards_speed_witness:
  "\<bar>10::int\<bar> \<le> 2 ^ 53 \<and> calculate_recommended_speed \<lparr>lat = 34, lng = 71\<rparr> [] 10 = Inr 20"
  using no_hazards_speed[of 10 "\<lparr>lat = 34, lng = 71\<rparr>"] by simp

text \<open>
  C5: for every non-negative distance, \<open>get_distance_factor\<close> is the step function of the
  specification (the factor of the smallest threshold that is at least the distance, so a
  distance equal to a threshold takes that threshold's factor), and it is \<open>0\<close> beyond
  2 km.
\<close>

theorem get_distance_factor_refines_spec:
  "0 \<le> d \<Longrightarrow>
   get_distance_factor d = distance_factor_spec d \<and> (rd 2 < d \<longrightarrow> get_distance_factor d = 0)"
  unfolding get_distance_factor_cases distance_factor_spec_def spec_thresholds_def
  by (simp add: rd_literals)

theorem get_distance_factor_refines_spec_witness:
  "(0::real) \<le> 3 \<and> get_distance_factor 3 = distance_factor_spec 3 \<and> rd 2 < 3
   \<and> get_distance_factor 3 = 0"
  using get_distance_factor_refines_spec[of 3] by (simp add: rd_two)

section \<open>Claims about the route operations\<close>

text \<open>
  C2 (as stated: for an empty waypoint list, and for a non-empty one without matching
  hazards, the analysis returns a report with zero hazards, zero average reduction, level
  \<open>safe\<close> and no most dangerous segment; the empty list is not an error).
  Counterexample: the guard \<^verbatim>\<open>if not waypoints\<close> answers the empty list with the error
  \<^verbatim>\<open>No waypoints provided\<close> and status 400.
\<close>

theorem analyze_empty_waypoints_is_error:
  "analyze_route_safety [] \<lparr>waypoints = [], search_radius_km = None\<rparr>
     = ResponseStatus (ErrorPayload ''No waypoints provided'') 400"
  by (simp add: analyze_route_safety_def)

text \<open>
  C2, amended: for an empty waypoint list \<open>analyze_route_safety\<close> returns the error
  \<^verbatim>\<open>No waypoints provided\<close> with status 400, without any division. The report computed
  from a list of recommendations without matched hazards has zero hazards and the level
  \<open>safe\<close>, and for a non-empty list its most dangerous segment is present, one of the
  recommendations; when moreover every speed reduction is zero the report exists, its average
  speed reduction is zero and the most dangerous segment is the first recommendation.
\<close>

theorem analysis_without_hazards:
  "(waypoints data = [] \<longrightarrow>
      analyze_route_safety db data = ResponseStatus (ErrorPayload ''No waypoints provided'') 400)
   \<and> ((\<forall>r\<in>set recs. hazards_count r = 0) \<and> route_analysis n recs = Inr rep \<longrightarrow>
        total_hazards rep = 0 \<and> safety_level rep = ''safe'' \<and>
        (recs \<noteq> [] \<longrightarrow> (\<exists>r\<in>set recs. most_dangerous_segment rep = Some r)))
   \<and> (recs \<noteq> [] \<and> (\<forall>r\<in>set recs. hazards_count r = 0 \<and> speed_reduction r = 0) \<longrightarrow>
        (\<exists>rep. route_analysis n recs = Inr rep \<and> total_hazards rep = 0 \<and>
           average_speed_reduction rep = 0 \<and> safety_level rep = ''safe'' \<and>
           most_dangerous_segment rep = Some (hd recs)))"
  using analyze_empty[of data db] route_analysis_no_hazards[of recs n rep]
    route_analysis_all_zero[of recs n]
  by blast

theorem analysis_without_hazards_witness:
  "waypoints \<lparr>waypoints = [], search_radius_km = None\<rparr> = []
   \<and> analyze_route_safety [] \<lparr>waypoints = [], search_radius_km = None\<rparr>
       = ResponseStatus (ErrorPayload ''No waypoints provided'') 400
   \<and> (\<exists>rep. route_analysis 1
         [\<lparr>waypoint_index = 0, location = \<lparr>lat = 34, lng = 71\<rparr>, speed_limit = 50,
           recommended_speed = 50, speed_reduction = 0, hazards_count = 0, hazards = []\<rparr>] = Inr rep
        \<and> total_hazards rep = 0 \<and> average_speed_reduction rep = 0 \<and> safety_level rep = ''safe''
        \<and> most_dangerous_segment rep =
            Some \<lparr>waypoint_index = 0, location = \<lparr>lat = 34, lng = 71\<rparr>, speed_limit = 50,
                  recommended_speed = 50, speed_reduction = 0, hazards_count = 0, hazards = []\<rparr>)"
  using analysis_without_hazards[of "\<lparr>waypoints = [], search_radius_km = None\<rparr>" "[]"
      "[\<lparr>waypoint_index = 0, location = \<lparr>lat = 34, lng = 71\<rparr>, speed_limit = 50,
         recommended_speed = 50, speed_reduction = 0, hazards_count = 0, hazards = []\<rparr>]" 1]
  by simp




section \<open>Claims about the simulators\<close>

text \<open>
  C7 (as stated: for every GPSSimulator and every sequence of move calls the speed lies in
  \<open>[20, 80]\<close> afterwards). The constructor stores any speed, and \<open>update_speed\<close> clamps
  only when it perturbs. Counterexample: a simulator created with 100 km/h whose roll does
  not fall below 0.05 still has 100 km/h after the move.
\<close>

theorem speed_stays_out_of_range:
  "speed_kmh (GPS_moves (GPSSimulator_init 34 71 100 0 5)
     [(1, \<lparr>turn_roll = 1 / 2, heading_change = 0, speed_roll = 1 / 2, speed_change = 0, new_accuracy = 5\<rparr>)]) = 100
   \<and> \<not> ((100::real) \<le> 80)"
  by (simp add: GPS_move_speed update_speed_def GPSSimulator_init_def rd_005)

text \<open>
  C7, amended: for every GPSSimulator whose speed lies in \<open>[20, 80]\<close> (the default 50
  does) and every finite sequence of move calls with any time deltas and any random
  draws, the speed, and the speed reported by \<open>get_current_position\<close>, lie in
  \<open>[20, 80]\<close> after the calls.
\<close>

theorem speed_stays_in_range:
  assumes "20 \<le> speed_kmh s" "speed_kmh s \<le> 80"
  shows "20 \<le> speed_kmh (GPS_moves s calls) \<and> speed_kmh (GPS_moves s calls) \<le> 80
       \<and> 20 \<le> reported_speed (GPS_moves s calls) \<and> reported_speed (GPS_moves s calls) \<le> 80"
  using GPS_moves_range[OF assms, of calls] py_round_range[of "speed_kmh (GPS_moves s calls)"]
  by (simp add: reported_speed_def)

theorem speed_stays_in_range_witness:
  "20 \<le> speed_kmh (GPSSimulator_init 34 71 50 0 5) \<and> speed_kmh (GPSSimulator_init 34 71 50 0 5) \<le> 80
   \<and> speed_kmh (GPS_moves (GPSSimulator_init 34 71 50 0 5)
        [(1, \<lparr>turn_roll = 1 / 2, heading_change = 0, speed_roll = 0, speed_change = 10, new_accuracy = 4\<rparr>)])
      \<le> 80
   \<and> 20 \<le> speed_kmh (GPS_moves (GPSSimulator_init 34 71 50 0 5)
        [(1, \<lparr>turn_roll = 1 / 2, heading_change = 0, speed_roll = 0, speed_change = 10, new_accuracy = 4\<rparr>)])"
proof -
  have a: "20 \<le> speed_kmh (GPSSimulator_init 34 71 50 0 5)"
    and b: "speed_kmh (GPSSimulator_init 34 71 50 0 5) \<le> 80"
    by (simp_all add: GPSSimulator_init_def)
  from speed_stays_in_range[OF a b] a b show ?thesis by blast
qed



text \<open>
  C9 (as stated: at the final waypoint \<open>move\<close> leaves index and progress unchanged and
  delegates the motion to the free motion of the embedded GPSSimulator). The branch
  returns at once; the embedded simulator is not moved. Counterexample: at the final
  waypoint \<open>move\<close> returns the simulator as it was, while a move of the embedded
  GPSSimulator would have displaced it.
\<close>

theorem final_waypoint_does_not_move_gps:
  "move \<lparr>route_waypoints = [\<lparr>lat = 0, lng = 0\<rparr>], current_waypoint_index = 0, route_speed_kmh = 50,
          progress = 0,
          gps_simulator = \<lparr>current_lat = 0, current_lng = 0, speed_kmh = 50, heading = 0, accuracy = 5\<rparr>\<rparr> 1
     = Inr \<lparr>route_waypoints = [\<lparr>lat = 0, lng = 0\<rparr>], current_waypoint_index = 0, route_speed_kmh = 50,
          progress = 0,
          gps_simulator = \<lparr>current_lat = 0, current_lng = 0, speed_kmh = 50, heading = 0, accuracy = 5\<rparr>\<rparr>
   \<and> GPS_move \<lparr>current_lat = 0, current_lng = 0, speed_kmh = 50, heading = 0, accuracy = 5\<rparr> 1
        \<lparr>turn_roll = 1 / 2, heading_change = 0, speed_roll = 1 / 2, speed_change = 0, new_accuracy = 5\<rparr>
     \<noteq> \<lparr>current_lat = 0, current_lng = 0, speed_kmh = 50, heading = 0, accuracy = 5\<rparr>"
proof -
  have "current_lat (GPS_move \<lparr>current_lat = 0, current_lng = 0, speed_kmh = 50, heading = 0, accuracy = 5\<rparr> 1
        \<lparr>turn_roll = 1 / 2, heading_change = 0, speed_roll = 1 / 2, speed_change = 0, new_accuracy = 5\<rparr>)
      \<noteq> current_lat \<lparr>current_lat = 0, current_lng = 0, speed_kmh = 50, heading = 0, accuracy = 5\<rparr>"
    using GPS_move_lat_pos[of "\<lparr>turn_roll = 1 / 2, heading_change = 0, speed_roll = 1 / 2, speed_change = 0, new_accuracy = 5\<rparr>"]
    by simp
  then have "GPS_move \<lparr>current_lat = 0, current_lng = 0, speed_kmh = 50, heading = 0, accuracy = 5\<rparr> 1
        \<lparr>turn_roll = 1 / 2, heading_change = 0, speed_roll = 1 / 2, speed_change = 0, new_accuracy = 5\<rparr>
     \<noteq> \<lparr>current_lat = 0, current_lng = 0, speed_kmh = 50, heading = 0, accuracy = 5\<rparr>"
    by metis
  then show ?thesis by (simp add: move_def at_final_waypoint_def)
qed

text \<open>
  C9, amended: for every RouteSimulator at the final waypoint, \<open>move\<close> leaves the whole
  object unchanged, the index, the progress and the embedded GPSSimulator; no motion takes
  place. Reading the position there leaves the object unchanged as well, and the report is
  the embedded simulator's.
\<close>

theorem final_waypoint_move_is_noop:
  assumes "at_final_waypoint s"
  shows "move s dt = Inr s \<and> sync_position s = s"
  using assms by (simp add: move_def sync_position_def)

theorem final_waypoint_move_is_noop_witness:
  "at_final_waypoint
     \<lparr>route_waypoints = [\<lparr>lat = 34, lng = 71\<rparr>, \<lparr>lat = 35, lng = 71\<rparr>], current_waypoint_index = 1,
      route_speed_kmh = 60, progress = 0,
      gps_simulator = \<lparr>current_lat = 34, current_lng = 71, speed_kmh = 60, heading = 90, accuracy = 5\<rparr>\<rparr>
   \<and> move \<lparr>route_waypoints = [\<lparr>lat = 34, lng = 71\<rparr>, \<lparr>lat = 35, lng = 71\<rparr>], current_waypoint_index = 1,
      route_speed_kmh = 60, progress = 0,
      gps_simulator = \<lparr>current_lat = 34, current_lng = 71, speed_kmh = 60, heading = 90, accuracy = 5\<rparr>\<rparr> 1
     = Inr \<lparr>route_waypoints = [\<lparr>lat = 34, lng = 71\<rparr>, \<lparr>lat = 35, lng = 71\<rparr>], current_waypoint_index = 1,
      route_speed_kmh = 60, progress = 0,
      gps_simulator = \<lparr>current_lat = 34, current_lng = 71, speed_kmh = 60, heading = 90, accuracy = 5\<rparr>\<rparr>"
proof -
  have a: "at_final_waypoint
     \<lparr>route_waypoints = [\<lparr>lat = 34, lng = 71\<rparr>, \<lparr>lat = 35, lng = 71\<rparr>], current_waypoint_index = 1,
      route_speed_kmh = 60, progress = 0,
      gps_simulator = \<lparr>current_lat = 34, current_lng = 71, speed_kmh = 60, heading = 90, accuracy = 5\<rparr>\<rparr>"
    by (simp add: at_final_waypoint_def)
  from final_waypoint_move_is_noop[OF a, of 1] a show ?thesis by blast
qed



end
